theory Spec2Isabelle
  imports Main "HOL-Library.Sublist"
begin

section \<open>The search composable \<open>useSearch\<close>\<close>

text \<open>
  This theory embeds \<^verbatim>\<open>packages/anu-vue/src/composables/useSearch.ts\<close>: the value
  extraction (\<^verbatim>\<open>extractStringValueFromObj\<close>), the property test
  (\<^verbatim>\<open>filterObjectViaProperty\<close>), the computed \<^verbatim>\<open>results\<close> with the callback it
  hands to \<^verbatim>\<open>data.filter\<close>, and the entry \<^verbatim>\<open>useSearch\<close> with its early return.
\<close>

subsection \<open>Values\<close>

text \<open>
  The items of \<^verbatim>\<open>data\<close> are arbitrary JavaScript values. Numbers are kept abstract
  (the type parameter \<open>'n\<close>): the code only inspects their type and stringifies them.
  An object is the list of its own enumerable properties in insertion order, which is what
  \<^verbatim>\<open>Object.entries\<close> enumerates. Objects are plain: their prototype is
  \<^verbatim>\<open>Object.prototype\<close>, so a property read \<^verbatim>\<open>obj[key]\<close> finds an own property, else
  a member of \<^verbatim>\<open>Object.prototype\<close>, else yields \<^verbatim>\<open>undefined\<close>. A function is either
  one of the runtime's own, known by its name, or a closure of the caller, known by a
  number.
\<close>

datatype js_function = Intrinsic string | Closure nat

datatype 'n jsval =
    JUndefined
  | JNull
  | JString string
  | JNumber 'n
  | JBoolean bool
  | JObject "(string \<times> 'n jsval) list"
  | JArray "'n jsval list"
  | JFunction js_function

datatype js_type = TUndefined | TObject | TString | TNumber | TBoolean | TFunction

fun typeof :: "'n jsval \<Rightarrow> js_type" where
  "typeof JUndefined = TUndefined"
| "typeof JNull = TObject"
| "typeof (JString s) = TString"
| "typeof (JNumber n) = TNumber"
| "typeof (JBoolean b) = TBoolean"
| "typeof (JObject ps) = TObject"
| "typeof (JArray xs) = TObject"
| "typeof (JFunction f) = TFunction"

definition Object_prototype :: "string \<Rightarrow> 'n jsval option" where
  \<comment> \<open>The members of \<^verbatim>\<open>Object.prototype\<close>: eleven functions, and the accessor
      \<^verbatim>\<open>__proto__\<close>, which on a plain object returns \<^verbatim>\<open>Object.prototype\<close> itself, an
      object without enumerable properties.\<close>
  "Object_prototype key =
     (if key \<in> set [''constructor'', ''__defineGetter__'', ''__defineSetter__'',
                    ''hasOwnProperty'', ''__lookupGetter__'', ''__lookupSetter__'',
                    ''isPrototypeOf'', ''propertyIsEnumerable'', ''toString'', ''valueOf'',
                    ''toLocaleString'']
      then Some (JFunction (Intrinsic key))
      else if key = ''__proto__'' then Some (JObject [])
      else None)"

definition get_prop :: "(string \<times> 'n jsval) list \<Rightarrow> string \<Rightarrow> 'n jsval" where
  \<comment> \<open>\<^verbatim>\<open>obj[key]\<close>: the own property, else the inherited one, else \<^verbatim>\<open>undefined\<close>.\<close>
  "get_prop obj key =
     (case map_of obj key of
        Some v \<Rightarrow> v
      | None \<Rightarrow> (case Object_prototype key of Some v \<Rightarrow> v | None \<Rightarrow> JUndefined))"

fun own_entries :: "'n jsval \<Rightarrow> (string \<times> 'n jsval) list" where
  \<comment> \<open>\<^verbatim>\<open>Object.entries(item)\<close>, called on items that passed \<^verbatim>\<open>isObject\<close> only.\<close>
  "own_entries (JObject ps) = ps"
| "own_entries v = []"

subsection \<open>The host: built-ins of the runtime and the imported helpers\<close>

text \<open>
  What the composable calls but does not define is a parameter of the model:
  the locale-aware lowercasing of strings, the two stringifications of numbers
  (\<^verbatim>\<open>String(n)\<close> and \<^verbatim>\<open>n.toLocaleString()\<close>), and the helper \<^verbatim>\<open>isEmpty\<close> imported from
  \<^verbatim>\<open>@/utils/helpers\<close>, whose source is not part of the files at hand. The composable
  applies \<^verbatim>\<open>isEmpty\<close> to the \<^verbatim>\<open>Ref\<close> object \<^verbatim>\<open>search\<close>, not to its content; the field
  \<open>isEmpty\<close> is the helper's verdict on a \<^verbatim>\<open>Ref\<close> whose current content is the given
  string.
\<close>

record 'n host =
  toLocaleLowerCase :: "string \<Rightarrow> string"
  number_String :: "'n \<Rightarrow> string"
  number_toLocaleString :: "'n \<Rightarrow> string"
  isEmpty :: "string \<Rightarrow> bool"

definition boolean_toString :: "bool \<Rightarrow> string" where
  \<comment> \<open>\<^verbatim>\<open>String(b)\<close>; \<^verbatim>\<open>b.toLocaleString()\<close> is the inherited
      \<^verbatim>\<open>Object.prototype.toLocaleString\<close>, which calls \<^verbatim>\<open>toString\<close>.\<close>
  "boolean_toString b = (if b then ''true'' else ''false'')"

definition str_includes :: "string \<Rightarrow> string \<Rightarrow> bool" where
  \<comment> \<open>\<^verbatim>\<open>s.includes(q)\<close>: \<open>q\<close> occurs in \<open>s\<close> as a contiguous substring.\<close>
  "str_includes s q = sublist q s"

definition isObject :: "'n jsval \<Rightarrow> bool" where
  \<comment> \<open>Modelled from the spec: the helper \<^verbatim>\<open>isObject\<close> of \<^verbatim>\<open>@/utils/helpers\<close> is not among
      the sources. The spec calls an item structured when it is "a mapping, not an array,
      not a primitive"; arrays, \<^verbatim>\<open>null\<close> and functions are not.\<close>
  "isObject v = (case v of JObject ps \<Rightarrow> True | _ \<Rightarrow> False)"

subsection \<open>Callbacks that may throw\<close>

text \<open>
  A caller-supplied filter is JavaScript code: it returns a boolean or throws. A completion
  is \<open>Inr\<close> of the value returned or \<open>Inl\<close> of the value thrown. The composable catches
  nothing, so \<^verbatim>\<open>Array.prototype.some\<close> and \<^verbatim>\<open>Array.prototype.filter\<close> are modelled with
  the callback's throw ending the traversal.
\<close>

type_synonym ('n, 'a) completion = "'n jsval + 'a"

type_synonym 'n CustomFilter = "'n jsval \<Rightarrow> string \<Rightarrow> 'n jsval \<Rightarrow> ('n, bool) completion"

datatype 'n filterBy_element =
    PropertyName string
  | NamedFilter string "'n CustomFilter"

datatype 'n typeFilterBy =
    FbUndefined
  | FbString string
  | FbArray "'n filterBy_element list"
  | FbFunction "string \<Rightarrow> 'n jsval \<Rightarrow> ('n, bool) completion"

fun array_some :: "('a \<Rightarrow> ('n, bool) completion) \<Rightarrow> 'a list \<Rightarrow> ('n, bool) completion" where
  "array_some f [] = Inr False"
| "array_some f (x # xs) =
     (case f x of
        Inl e \<Rightarrow> Inl e
      | Inr b \<Rightarrow> if b then Inr True else array_some f xs)"

fun array_filter :: "('a \<Rightarrow> ('n, bool) completion) \<Rightarrow> 'a list \<Rightarrow> ('n, 'a list) completion" where
  "array_filter f [] = Inr []"
| "array_filter f (x # xs) =
     (case f x of
        Inl e \<Rightarrow> Inl e
      | Inr b \<Rightarrow>
          (case array_filter f xs of
             Inl e \<Rightarrow> Inl e
           | Inr ys \<Rightarrow> Inr (if b then x # ys else ys)))"

subsection \<open>Extraction and the property test\<close>

definition extractStringValueFromObj ::
  "'n host \<Rightarrow> (string \<times> 'n jsval) list \<Rightarrow> string \<Rightarrow> bool \<Rightarrow> string option" where
  \<comment> \<open>\<open>None\<close> is the \<^verbatim>\<open>null\<close> the source returns.\<close>
  "extractStringValueFromObj h obj key strict =
     (let extractedVal = get_prop obj key in
      if strict then
        (case extractedVal of
           JString s \<Rightarrow> Some s
         | _ \<Rightarrow> None)
      else
        (case extractedVal of
           JString s \<Rightarrow> Some s
         | JNumber n \<Rightarrow> Some (number_toLocaleString h n)
         | JBoolean b \<Rightarrow> Some (boolean_toString b)
         | _ \<Rightarrow> None))"

definition filterObjectViaProperty ::
  "'n host \<Rightarrow> (string \<times> 'n jsval) list \<Rightarrow> string \<Rightarrow> string \<Rightarrow> bool \<Rightarrow> bool" where
  \<comment> \<open>\<^verbatim>\<open>if (extractedVal)\<close> is a truthiness test: \<^verbatim>\<open>null\<close> and the empty string
      are both falsy.\<close>
  "filterObjectViaProperty h obj propertyName q strict =
     (case extractStringValueFromObj h obj propertyName strict of
        None \<Rightarrow> False
      | Some extractedVal \<Rightarrow>
          if extractedVal \<noteq> [] then str_includes (toLocaleLowerCase h extractedVal) q
          else False)"

subsection \<open>The computed \<open>results\<close>\<close>

definition primitive_includes :: "'n host \<Rightarrow> bool \<Rightarrow> string \<Rightarrow> 'n jsval \<Rightarrow> bool option" where
  \<comment> \<open>The strict/loose test on a value, written twice in the source (on the item, lines
      75 to 82, and on each property value, lines 95 to 102): \<open>Some b\<close> when a
      \<^verbatim>\<open>return\<close> is taken, \<open>None\<close> when control falls through.\<close>
  "primitive_includes h strict q v =
     (if strict then
        (case v of
           JString s \<Rightarrow> Some (str_includes (toLocaleLowerCase h s) q)
         | _ \<Rightarrow> None)
      else
        (case v of
           JString s \<Rightarrow> Some (str_includes (toLocaleLowerCase h s) q)
         | JNumber n \<Rightarrow> Some (str_includes (toLocaleLowerCase h (number_String h n)) q)
         | JBoolean b \<Rightarrow> Some (str_includes (toLocaleLowerCase h (boolean_toString b)) q)
         | _ \<Rightarrow> None))"

definition entry_matches :: "'n host \<Rightarrow> bool \<Rightarrow> string \<Rightarrow> string \<times> 'n jsval \<Rightarrow> bool" where
  \<comment> \<open>The callback of \<^verbatim>\<open>Object.entries(item).some\<close>.\<close>
  "entry_matches h strict q entry =
     (case primitive_includes h strict q (snd entry) of
        Some b \<Rightarrow> b
      | None \<Rightarrow> False)"

fun filterBy_falsy :: "'n typeFilterBy \<Rightarrow> bool" where
  \<comment> \<open>\<^verbatim>\<open>!_filterBy\<close>: \<^verbatim>\<open>undefined\<close> and the empty string are falsy, an array (also an
      empty one) and a function are truthy.\<close>
  "filterBy_falsy FbUndefined = True"
| "filterBy_falsy (FbString p) = (p = [])"
| "filterBy_falsy (FbArray ks) = False"
| "filterBy_falsy (FbFunction g) = False"

fun element_matches ::
  "'n host \<Rightarrow> string \<Rightarrow> string \<Rightarrow> bool \<Rightarrow> 'n jsval \<Rightarrow> 'n filterBy_element \<Rightarrow> ('n, bool) completion" where
  \<comment> \<open>The callback of \<^verbatim>\<open>_filterBy.some\<close>; \<open>search_value\<close> is \<^verbatim>\<open>search.value\<close>.\<close>
  "element_matches h search_value q strict item (PropertyName k) =
     Inr (filterObjectViaProperty h (own_entries item) k q strict)"
| "element_matches h search_value q strict item (NamedFilter name filterBy) =
     filterBy (get_prop (own_entries item) name) search_value item"

definition object_matches ::
  "'n host \<Rightarrow> string \<Rightarrow> string \<Rightarrow> 'n typeFilterBy \<Rightarrow> bool \<Rightarrow> 'n jsval \<Rightarrow> ('n, bool) completion" where
  \<comment> \<open>The body of \<^verbatim>\<open>if (isObject(item))\<close>. After \<^verbatim>\<open>!_filterBy\<close> has failed the value is
      a non-empty string or an array: a function returned at line 63 and \<^verbatim>\<open>undefined\<close> is
      falsy, so the last two cases only repeat what those paths do.\<close>
  "object_matches h search_value q fb strict item =
     (if filterBy_falsy fb
      then Inr (list_ex (entry_matches h strict q) (own_entries item))
      else
        (case fb of
           FbString p \<Rightarrow> Inr (filterObjectViaProperty h (own_entries item) p q strict)
         | FbArray ks \<Rightarrow> array_some (element_matches h search_value q strict item) ks
         | FbFunction g \<Rightarrow> g search_value item
         | FbUndefined \<Rightarrow> Inr (list_ex (entry_matches h strict q) (own_entries item))))"

definition filter_callback ::
  "'n host \<Rightarrow> string \<Rightarrow> string \<Rightarrow> 'n typeFilterBy \<Rightarrow> bool \<Rightarrow> 'n jsval \<Rightarrow> ('n, bool) completion" where
  \<comment> \<open>The callback of \<^verbatim>\<open>data.filter\<close>.\<close>
  "filter_callback h search_value q fb strict item =
     (case fb of
        FbFunction g \<Rightarrow> g search_value item
      | _ \<Rightarrow>
          (case primitive_includes h strict q item of
             Some b \<Rightarrow> Inr b
           | None \<Rightarrow>
               if isObject item then object_matches h search_value q fb strict item
               else Inr False))"

text \<open>
  The reactive inputs. \<open>'w\<close> is the state of the reactive cells; a \<^verbatim>\<open>Ref\<close> is its getter,
  a \<^verbatim>\<open>MaybeRef\<close> is a plain value or a \<^verbatim>\<open>Ref\<close>. An omitted \<^verbatim>\<open>filterBy\<close> is
  \<open>Plain FbUndefined\<close>. In \<^verbatim>\<open>filterBy ? unref(filterBy) : filterBy\<close> a falsy \<^verbatim>\<open>filterBy\<close>
  is a plain value, which \<^verbatim>\<open>unref\<close> returns as it is: both branches are \<open>unref\<close>.
\<close>

type_synonym ('w, 'a) ref = "'w \<Rightarrow> 'a"

datatype ('w, 'a) maybe_ref = Plain 'a | IsRef "('w, 'a) ref"

fun unref :: "'w \<Rightarrow> ('w, 'a) maybe_ref \<Rightarrow> 'a" where
  "unref w (Plain a) = a"
| "unref w (IsRef r) = r w"

definition results ::
  "'n host \<Rightarrow> ('w, string) ref \<Rightarrow> 'n jsval list \<Rightarrow> ('w, 'n typeFilterBy) maybe_ref \<Rightarrow>
   ('w, bool) maybe_ref \<Rightarrow> 'w \<Rightarrow> ('n, 'n jsval list) completion" where
  \<comment> \<open>The getter of the computed, run in the state \<open>w\<close>.\<close>
  "results h search dat filterBy strict w =
     (let q = toLocaleLowerCase h (search w);
          filterBy' = unref w filterBy;
          strict' = unref w strict
      in array_filter (filter_callback h (search w) q filterBy' strict') dat)"

subsection \<open>The entry \<open>useSearch\<close>\<close>

text \<open>
  \<^verbatim>\<open>useSearch\<close> runs once, in the state \<open>w0\<close> of the setup: it returns either a plain
  \<^verbatim>\<open>ref(data)\<close> or the computed. \<open>value_of r w\<close> reads \<^verbatim>\<open>results.value\<close> in a later
  state \<open>w\<close>.
\<close>

datatype ('w, 'n) results_ref =
    RefResults "'n jsval list"
  | ComputedResults "'w \<Rightarrow> ('n, 'n jsval list) completion"

definition useSearch ::
  "'n host \<Rightarrow> 'w \<Rightarrow> ('w, string) ref \<Rightarrow> 'n jsval list \<Rightarrow> ('w, 'n typeFilterBy) maybe_ref \<Rightarrow>
   ('w, bool) maybe_ref \<Rightarrow> ('w, 'n) results_ref" where
  "useSearch h w0 search dat filterBy strict =
     (if isEmpty h (search w0) then RefResults dat
      else ComputedResults (results h search dat filterBy strict))"

fun value_of :: "('w, 'n) results_ref \<Rightarrow> 'w \<Rightarrow> ('n, 'n jsval list) completion" where
  "value_of (RefResults dat) w = Inr dat"
| "value_of (ComputedResults getter) w = getter w"

subsection \<open>A concrete host\<close>

text \<open>
  For evaluation at concrete inputs: numbers are integers, \<^verbatim>\<open>String(n)\<close> is the decimal
  numeral, \<^verbatim>\<open>n.toLocaleString()\<close> is the numeral grouped in thousands as the
  \<^verbatim>\<open>en-US\<close> locale does, and lowercasing maps the letters A to Z.
\<close>

definition ascii_lower :: "char \<Rightarrow> char" where
  "ascii_lower c =
     (case map_of (zip ''ABCDEFGHIJKLMNOPQRSTUVWXYZ'' ''abcdefghijklmnopqrstuvwxyz'') c of
        Some d \<Rightarrow> d
      | None \<Rightarrow> c)"

definition digit :: "int \<Rightarrow> char" where
  "digit d = ''0123456789'' ! nat d"

function decimal :: "int \<Rightarrow> string" where
  "decimal n = (if n < 10 then [digit n] else decimal (n div 10) @ [digit (n mod 10)])"
  by pat_completeness auto
termination
  by (relation "measure nat") auto

declare decimal.simps [simp del]

definition decimal_branch :: "bool \<Rightarrow> int \<Rightarrow> string" where
  \<comment> \<open>The two branches of \<open>decimal\<close>, selected by a constructor: evaluation decides the
      test before it unfolds the recursive call.\<close>
  "decimal_branch b n = (if b then [digit n] else decimal (n div 10) @ [digit (n mod 10)])"

lemma decimal_code [code]: "decimal n = decimal_branch (n < 10) n"
  by (simp add: decimal_branch_def decimal.simps [of n])

lemma decimal_branch_code [code]:
  "decimal_branch True n = [digit n]"
  "decimal_branch False n = decimal (n div 10) @ [digit (n mod 10)]"
  by (simp_all add: decimal_branch_def)

fun group3 :: "string \<Rightarrow> string" where
  \<comment> \<open>On the digits from the least significant one: a comma after every third digit
      that has a successor.\<close>
  "group3 (a # b # c # d # ds) = a # b # c # CHR '','' # group3 (d # ds)"
| "group3 ds = ds"

definition int_String :: "int \<Rightarrow> string" where
  "int_String i = (if i < 0 then ''-'' @ decimal (- i) else decimal i)"

definition int_toLocaleString :: "int \<Rightarrow> string" where
  "int_toLocaleString i =
     (if i < 0 then ''-'' @ rev (group3 (rev (decimal (- i))))
      else rev (group3 (rev (decimal i))))"

definition isEmpty_content :: "string \<Rightarrow> bool" where
  \<comment> \<open>Modelled from the spec: the helper \<^verbatim>\<open>isEmpty\<close> of \<^verbatim>\<open>@/utils/helpers\<close> is not among
      the sources. The spec has the early return taken when the "query is empty"; read on
      the \<^verbatim>\<open>Ref\<close> the composable passes, it is true exactly when the content of the
      \<^verbatim>\<open>Ref\<close> is the empty string.\<close>
  "isEmpty_content s = (s = [])"

definition enUS :: "int host" where
  "enUS = \<lparr> toLocaleLowerCase = map ascii_lower,
            number_String = int_String,
            number_toLocaleString = int_toLocaleString,
            isEmpty = isEmpty_content \<rparr>"

section \<open>Properties\<close>

subsection \<open>The array traversals\<close>

lemma array_filter_total:
  assumes "\<And>x. x \<in> set xs \<Longrightarrow> f x = Inr (p x)"
  shows "array_filter f xs = Inr (filter p xs)"
  using assms by (induction xs) auto

lemma array_filter_Inr:
  "array_filter f xs = Inr ys \<Longrightarrow>
     ys = filter (\<lambda>x. f x = Inr True) xs \<and> (\<forall>x\<in>set xs. \<exists>b. f x = Inr b)"
  by (induction xs arbitrary: ys) (auto split: sum.splits if_splits)

lemma array_filter_Inl: "array_filter f xs = Inl e \<Longrightarrow> \<exists>x\<in>set xs. f x = Inl e"
  by (induction xs) (auto split: sum.splits)

lemma array_some_find:
  "array_some f xs =
     (case find (\<lambda>x. f x \<noteq> Inr False) xs of None \<Rightarrow> Inr False | Some x \<Rightarrow> f x)"
  by (induction xs) (auto split: sum.splits)

lemma array_some_total:
  assumes "\<And>x. x \<in> set xs \<Longrightarrow> f x = Inr (p x)"
  shows "array_some f xs = Inr (\<exists>x\<in>set xs. p x)"
  using assms by (induction xs) auto

lemma array_some_short_circuit:
  assumes "\<forall>x\<in>set pre. f x = Inr False" and "f k = Inr True"
  shows "array_some f (pre @ k # post) = Inr True"
  using assms by (induction pre) auto

subsection \<open>The early return of \<open>useSearch\<close>\<close>

text \<open>
  The test \<^verbatim>\<open>isEmpty(search)\<close> runs once, when the composable is set up. When it succeeds
  the caller holds a plain \<^verbatim>\<open>ref(data)\<close> that no later query changes; when it fails the
  caller holds the computed, which has no empty-query branch of its own.
\<close>

lemma useSearch_early_return:
  "isEmpty h (search w0) \<Longrightarrow> value_of (useSearch h w0 search dat filterBy strict) w = Inr dat"
  by (simp add: useSearch_def)

lemma useSearch_computed:
  "\<not> isEmpty h (search w0) \<Longrightarrow>
     value_of (useSearch h w0 search dat filterBy strict) w = results h search dat filterBy strict w"
  by (simp add: useSearch_def)

text \<open>
  C1 (empty-query identity), evaluated where the code departs from it. The source comments
  the early return with "If search is empty return all data" and marks the line as not
  correct. The query is \<^verbatim>\<open>'a'\<close> when \<^verbatim>\<open>useSearch\<close> is called and is emptied afterwards:
  the computed then filters with the empty query. Under \<^verbatim>\<open>strict = true\<close> the number
  \<^verbatim>\<open>42\<close> is neither a string nor an object and is dropped; a whole-query function is
  still called, with the empty query, and what it rejects is dropped.
\<close>

theorem C1_empty_query_after_setup:
  "value_of (useSearch enUS ''a'' (\<lambda>w. w) [JNumber 42] (Plain FbUndefined) (Plain True)) '''' = Inr []
   \<and> value_of (useSearch enUS ''a'' (\<lambda>w. w) [JString ''x'']
        (Plain (FbFunction (\<lambda>q item. Inr False))) (Plain False)) '''' = Inr []"
  by code_simp

subsection \<open>The whole-query function\<close>

text \<open>
  C2 (GlobalPredicate override): when \<^verbatim>\<open>filterBy\<close> is a function \<open>g\<close> that returns a
  boolean on every item, the computed yields exactly the items on which
  \<open>g\<close> of the raw \<^verbatim>\<open>search.value\<close> and the raw item is true, in their order, for every
  host (no lowercasing, no extraction, no stringification enters) and every strictness;
  it is what \<^verbatim>\<open>useSearch\<close> exposes whenever it returned the computed.
\<close>

theorem C2_global_predicate:
  assumes "unref w filterBy = FbFunction g"
    and "\<forall>item\<in>set dat. g (search w) item = Inr (p item)"
  shows "results h search dat filterBy strict w = Inr (filter p dat)
     \<and> (\<not> isEmpty h (search w0) \<longrightarrow>
          value_of (useSearch h w0 search dat filterBy strict) w = Inr (filter p dat))"
proof -
  have "results h search dat filterBy strict w = array_filter (g (search w)) dat"
    using assms(1) by (simp add: results_def filter_callback_def [abs_def])
  also have "\<dots> = Inr (filter p dat)"
    using assms(2) by (intro array_filter_total) simp
  finally show ?thesis
    by (simp add: useSearch_computed)
qed

text \<open>
  C2 at a concrete input: the function sees the query \<^verbatim>\<open>'A'\<close> as typed, not its
  lowercase form.
\<close>

theorem C2_global_predicate_witness:
  "results enUS (\<lambda>w. w) [JString ''Apple'', JNumber 3]
      (Plain (FbFunction (\<lambda>q item. Inr (q = ''A'' \<and> item = JString ''Apple'')))) (Plain True) ''A''
     = Inr [JString ''Apple'']
   \<and> value_of (useSearch enUS ''B'' (\<lambda>w. w) [JString ''Apple'', JNumber 3]
      (Plain (FbFunction (\<lambda>q item. Inr (q = ''A'' \<and> item = JString ''Apple'')))) (Plain True)) ''A''
     = Inr [JString ''Apple'']"
  using C2_global_predicate [of "''A''" "Plain (FbFunction (\<lambda>q item. Inr (q = ''A'' \<and> item = JString ''Apple'')))"
      "\<lambda>q item. Inr (q = ''A'' \<and> item = JString ''Apple'')" "[JString ''Apple'', JNumber 3]"
      "\<lambda>w. w" "\<lambda>item. item = JString ''Apple''" enUS "Plain True" "''B''"]
  by (simp add: enUS_def isEmpty_content_def)

subsection \<open>Arrays as items\<close>

lemma filter_callback_array:
  assumes "\<forall>g. fb \<noteq> FbFunction g"
  shows "filter_callback h sv q fb strict (JArray xs) = Inr False"
  using assms
  by (cases fb) (simp_all add: filter_callback_def primitive_includes_def isObject_def)

text \<open>
  C3 (array exclusion): when \<^verbatim>\<open>filterBy\<close> is not a function, the callback returns
  \<^verbatim>\<open>false\<close> on an array item without throwing, for every query and strictness, and no
  result of the computed contains the array; nor does the value \<^verbatim>\<open>useSearch\<close> exposes
  when it returned the computed.
\<close>

theorem C3_array_excluded:
  assumes "\<forall>g. unref w filterBy \<noteq> FbFunction g"
  shows "filter_callback h (search w) (toLocaleLowerCase h (search w)) (unref w filterBy)
           (unref w strict) (JArray xs) = Inr False
     \<and> (\<forall>r. results h search dat filterBy strict w = Inr r \<longrightarrow> JArray xs \<notin> set r)
     \<and> (\<forall>r. \<not> isEmpty h (search w0)
            \<and> value_of (useSearch h w0 search dat filterBy strict) w = Inr r \<longrightarrow>
            JArray xs \<notin> set r)"
proof -
  have cb: "filter_callback h (search w) (toLocaleLowerCase h (search w)) (unref w filterBy)
           (unref w strict) (JArray xs) = Inr False"
    using assms by (rule filter_callback_array)
  have res: "JArray xs \<notin> set r" if "results h search dat filterBy strict w = Inr r" for r
  proof -
    from that have "r = filter (\<lambda>x. filter_callback h (search w) (toLocaleLowerCase h (search w))
        (unref w filterBy) (unref w strict) x = Inr True) dat"
      by (simp add: results_def array_filter_Inr)
    with cb show ?thesis by simp
  qed
  have "JArray xs \<notin> set r"
    if "\<not> isEmpty h (search w0)" "value_of (useSearch h w0 search dat filterBy strict) w = Inr r" for r
    using that res by (simp add: useSearch_computed)
  with cb res show ?thesis by blast
qed

text \<open>C3 at a concrete input: the array is dropped although its element contains the query.\<close>

theorem C3_array_excluded_witness:
  "filter_callback enUS ''an'' (toLocaleLowerCase enUS ''an'') FbUndefined False
       (JArray [JString ''an'']) = Inr False
   \<and> results enUS (\<lambda>w. w) [JArray [JString ''an''], JString ''banana'']
        (Plain FbUndefined) (Plain False) ''an''
     = Inr [JString ''banana'']"
proof -
  have r: "results enUS (\<lambda>w. w) [JArray [JString ''an''], JString ''banana'']
        (Plain FbUndefined) (Plain False) ''an''
     = Inr [JString ''banana'']"
    by code_simp
  have "\<forall>g. unref ''an'' (Plain (FbUndefined :: int typeFilterBy)) \<noteq> FbFunction g"
    by simp
  from C3_array_excluded [OF this, where h = enUS and search = "\<lambda>w. w" and strict = "Plain False"
      and xs = "[JString ''an'']"] r
  show ?thesis by simp
qed

subsection \<open>The result is a stable selection of the input\<close>

text \<open>
  C9 (subsequence and stability): whatever \<^verbatim>\<open>useSearch\<close> returned, reading its value
  either yields a subsequence of \<^verbatim>\<open>data\<close> that is \<^verbatim>\<open>data\<close> filtered by a predicate on
  the items (same relative order, nothing synthesized, equal items kept or dropped alike),
  or propagates what a caller-supplied function threw on some item.
\<close>

theorem C9_subsequence:
  "case value_of (useSearch h w0 search dat filterBy strict) w of
     Inr r \<Rightarrow> subseq r dat \<and> (\<exists>P. r = filter P dat)
   | Inl e \<Rightarrow> \<exists>x\<in>set dat. filter_callback h (search w) (toLocaleLowerCase h (search w))
                 (unref w filterBy) (unref w strict) x = Inl e"
proof (cases "isEmpty h (search w0)")
  case True
  have "dat = filter (\<lambda>x. True) dat" by simp
  then have "\<exists>P. dat = filter P dat" by blast
  with True show ?thesis by (simp add: useSearch_early_return)
next
  case False
  show ?thesis
  proof (cases "results h search dat filterBy strict w")
    case (Inl e)
    then show ?thesis using False
      by (simp add: useSearch_computed) (simp add: results_def array_filter_Inl)
  next
    case (Inr r)
    then have "r = filter (\<lambda>x. filter_callback h (search w) (toLocaleLowerCase h (search w))
        (unref w filterBy) (unref w strict) x = Inr True) dat"
      by (simp add: results_def array_filter_Inr)
    then have "subseq r dat \<and> (\<exists>P. r = filter P dat)" by auto
    with Inr False show ?thesis by (simp add: useSearch_computed)
  qed
qed

text \<open>C9 at a concrete input: two equal items are kept, each at its own position.\<close>

theorem C9_subsequence_witness:
  "value_of (useSearch enUS ''x'' (\<lambda>w. w)
       [JString ''Apple'', JString ''banana'', JNumber 42, JBoolean True, JString ''banana'']
       (Plain FbUndefined) (Plain False)) ''an''
     = Inr [JString ''banana'', JString ''banana'']
   \<and> subseq [JString ''banana'', JString ''banana'']
       [JString ''Apple'', JString ''banana'', JNumber 42 :: int jsval, JBoolean True, JString ''banana'']"
proof -
  let ?dat = "[JString ''Apple'', JString ''banana'', JNumber 42, JBoolean True, JString ''banana''] :: int jsval list"
  have v: "value_of (useSearch enUS ''x'' (\<lambda>w. w) ?dat (Plain FbUndefined) (Plain False)) ''an''
     = Inr [JString ''banana'', JString ''banana'']"
    by code_simp
  from C9_subsequence [where h = enUS and ?w0.0 = "''x''" and search = "\<lambda>w. w" and dat = ?dat
      and filterBy = "Plain FbUndefined" and strict = "Plain False" and w = "''an''"] v
  show ?thesis by simp
qed

subsection \<open>The property test\<close>

text \<open>
  C10 (empty-string property): when the named property holds the empty string,
  \<^verbatim>\<open>filterObjectViaProperty\<close> returns \<^verbatim>\<open>false\<close> for every query, the empty one
  included, and in both strictness modes.
\<close>

theorem C10_empty_string_property:
  assumes "get_prop obj propertyName = JString []"
  shows "\<not> filterObjectViaProperty h obj propertyName q strict"
  using assms by (simp add: filterObjectViaProperty_def extractStringValueFromObj_def Let_def)

text \<open>C10 at a concrete input, with the empty query, strict and loose.\<close>

theorem C10_empty_string_property_witness:
  "get_prop [(''a'', JString [])] ''a'' = (JString [] :: int jsval)
   \<and> \<not> filterObjectViaProperty enUS [(''a'', JString [])] ''a'' [] True
   \<and> \<not> filterObjectViaProperty enUS [(''a'', JString [])] ''a'' [] False"
proof -
  have g: "get_prop [(''a'', JString [])] ''a'' = (JString [] :: int jsval)"
    by (simp add: get_prop_def)
  from g C10_empty_string_property [OF g, of enUS "[]" True]
    C10_empty_string_property [OF g, of enUS "[]" False]
  show ?thesis by simp
qed

text \<open>
  C4 as stated fails on the truthiness guard: from \<^verbatim>\<open>{a: ''}\<close> a value is extracted (the
  empty string), its lowercase form contains the lowercase empty query, and the property
  test is \<^verbatim>\<open>false\<close>.
\<close>

theorem C4_counterexample:
  "extractStringValueFromObj enUS [(''a'', JString [])] ''a'' True = Some []
   \<and> str_includes (toLocaleLowerCase enUS []) (toLocaleLowerCase enUS [])
   \<and> \<not> filterObjectViaProperty enUS [(''a'', JString [])] ''a'' (toLocaleLowerCase enUS []) True"
  by code_simp

text \<open>
  C4 (property extraction contract), amended: under \<^verbatim>\<open>strict = true\<close> extraction
  yields the value when it is a string and no value otherwise; under \<^verbatim>\<open>strict = false\<close>
  it yields the string itself, the locale-aware stringification of a number, or the
  stringification of a boolean, and no value otherwise; a missing or undefined property
  yields no value; when a non-empty value was extracted the property matches iff its
  lowercase form contains the query handed in (already lowercase); the extracted empty
  string and no value never match. The functions are total: there is no error.
\<close>

theorem C4_extraction_contract:
  "(\<forall>s. get_prop obj key = JString s \<longrightarrow>
        extractStringValueFromObj h obj key True = Some s)
   \<and> (typeof (get_prop obj key) \<noteq> TString \<longrightarrow>
        extractStringValueFromObj h obj key True = None)
   \<and> (\<forall>s. get_prop obj key = JString s \<longrightarrow>
        extractStringValueFromObj h obj key False = Some s)
   \<and> (\<forall>n. get_prop obj key = JNumber n \<longrightarrow>
        extractStringValueFromObj h obj key False = Some (number_toLocaleString h n))
   \<and> (\<forall>b. get_prop obj key = JBoolean b \<longrightarrow>
        extractStringValueFromObj h obj key False = Some (boolean_toString b))
   \<and> (typeof (get_prop obj key) \<notin> {TString, TNumber, TBoolean} \<longrightarrow>
        extractStringValueFromObj h obj key False = None)
   \<and> (key \<notin> fst ` set obj \<or> get_prop obj key = JUndefined \<longrightarrow>
        extractStringValueFromObj h obj key strict = None)
   \<and> (\<forall>v. extractStringValueFromObj h obj key strict = Some v \<and> v \<noteq> [] \<longrightarrow>
        filterObjectViaProperty h obj key q strict = str_includes (toLocaleLowerCase h v) q)
   \<and> (extractStringValueFromObj h obj key strict = Some [] \<longrightarrow>
        \<not> filterObjectViaProperty h obj key q strict)
   \<and> (extractStringValueFromObj h obj key strict = None \<longrightarrow>
        \<not> filterObjectViaProperty h obj key q strict)"
proof -
  have missing: "extractStringValueFromObj h obj key strict = None" if "key \<notin> fst ` set obj"
  proof -
    from that have "map_of obj key = None"
      by (simp add: map_of_eq_None_iff)
    then have "typeof (get_prop obj key) \<in> {TUndefined, TFunction, TObject}"
      by (simp add: get_prop_def Object_prototype_def)
    then show ?thesis
      by (cases "get_prop obj key") (simp_all add: extractStringValueFromObj_def Let_def)
  qed
  have undef: "extractStringValueFromObj h obj key strict = None"
    if "get_prop obj key = JUndefined"
    using that by (simp add: extractStringValueFromObj_def)
  have strict_other: "extractStringValueFromObj h obj key True = None"
    if "typeof (get_prop obj key) \<noteq> TString"
    using that by (cases "get_prop obj key") (simp_all add: extractStringValueFromObj_def)
  have loose_other: "extractStringValueFromObj h obj key False = None"
    if "typeof (get_prop obj key) \<notin> {TString, TNumber, TBoolean}"
    using that by (cases "get_prop obj key") (simp_all add: extractStringValueFromObj_def)
  show ?thesis
    using missing undef strict_other loose_other
    by (auto simp add: extractStringValueFromObj_def filterObjectViaProperty_def)
qed

text \<open>C4 at a concrete input: a numeric property, and a property that is missing.\<close>

theorem C4_extraction_contract_witness:
  "extractStringValueFromObj enUS [(''n'', JNumber 1234)] ''n'' False = Some ''1,234''
   \<and> extractStringValueFromObj enUS [(''n'', JNumber 1234)] ''n'' True = None
   \<and> extractStringValueFromObj enUS [(''n'', JNumber 1234)] ''m'' False = None
   \<and> filterObjectViaProperty enUS [(''n'', JNumber 1234)] ''n'' '',2'' False"
proof -
  have g: "get_prop [(''n'', JNumber 1234)] ''n'' = (JNumber 1234 :: int jsval)"
    by (simp add: get_prop_def)
  have t: "typeof (get_prop [(''n'', JNumber 1234 :: int jsval)] ''n'') \<noteq> TString"
    by (simp add: g)
  have f: "number_toLocaleString enUS 1234 = ''1,234''"
    by code_simp
  have i: "str_includes (toLocaleLowerCase enUS ''1,234'') '',2''"
    by code_simp
  have m: "''m'' \<notin> fst ` set [(''n'', JNumber 1234 :: int jsval)]"
    by simp
  note c = C4_extraction_contract [where h = enUS and obj = "[(''n'', JNumber 1234)]" and q = "'',2''"]
  have e: "extractStringValueFromObj enUS [(''n'', JNumber 1234)] ''n'' False = Some ''1,234''"
    using c [where key = "''n''" and strict = False] g f by simp
  have e': "extractStringValueFromObj enUS [(''n'', JNumber 1234)] ''n'' True = None"
    using c [where key = "''n''" and strict = False] t by blast
  have e'': "extractStringValueFromObj enUS [(''n'', JNumber 1234)] ''m'' False = None"
    using c [where key = "''m''" and strict = False] m by blast
  have "filterObjectViaProperty enUS [(''n'', JNumber 1234)] ''n'' '',2'' False"
    using c [where key = "''n''" and strict = False] e i by simp
  with e e' e'' show ?thesis by simp
qed

subsection \<open>The scan of all properties\<close>

text \<open>
  C5 as stated fails on numbers: without \<^verbatim>\<open>filterBy\<close> the scan stringifies the value with
  \<^verbatim>\<open>String\<close>, the extraction with \<^verbatim>\<open>toLocaleString\<close>. The item \<^verbatim>\<open>{a: 1234}\<close> matches
  the query \<^verbatim>\<open>'1234'\<close>, while the extraction test on its property \<^verbatim>\<open>a\<close> sees
  \<^verbatim>\<open>'1,234'\<close> and fails.
\<close>

theorem C5_counterexample:
  "filter_callback enUS ''1234'' (toLocaleLowerCase enUS ''1234'') FbUndefined False
       (JObject [(''a'', JNumber 1234)]) = Inr True
   \<and> \<not> filterObjectViaProperty enUS [(''a'', JNumber 1234)] ''a''
         (toLocaleLowerCase enUS ''1234'') False"
  by code_simp

lemma str_includes_Nil: "str_includes [] q = (q = [])"
  by (simp add: str_includes_def)

lemma entry_matches_as_property_test:
  assumes "toLocaleLowerCase h [] = []" and "q \<noteq> []"
  shows "entry_matches h strict q (k, v) =
     filterObjectViaProperty (h\<lparr>number_toLocaleString := number_String h\<rparr>) [(k, v)] k q strict"
  using assms
  by (cases v; cases strict)
     (simp_all add: entry_matches_def primitive_includes_def filterObjectViaProperty_def
        extractStringValueFromObj_def get_prop_def str_includes_Nil boolean_toString_def)

lemma filter_callback_object_undefined:
  "filter_callback h sv q FbUndefined strict (JObject props) =
     Inr (\<exists>e\<in>set props. entry_matches h strict q e)"
  by (simp add: filter_callback_def primitive_includes_def isObject_def object_matches_def
      list_ex_iff)

text \<open>
  C5 (full-object scan), amended: for a query whose lowercase form is not empty and an
  object item, when no \<^verbatim>\<open>filterBy\<close> is supplied the item matches iff, for at least one
  of its (property, value) pairs, the admission-plus-substring test of the extraction
  contract succeeds on that pair with a number stringified by \<^verbatim>\<open>String\<close> in place of
  \<^verbatim>\<open>toLocaleString\<close>.
\<close>

theorem C5_full_object_scan:
  assumes "toLocaleLowerCase h [] = []" and "toLocaleLowerCase h sv \<noteq> []"
  shows "filter_callback h sv (toLocaleLowerCase h sv) FbUndefined strict (JObject props) =
     Inr (\<exists>(k, v)\<in>set props.
            filterObjectViaProperty (h\<lparr>number_toLocaleString := number_String h\<rparr>) [(k, v)] k
              (toLocaleLowerCase h sv) strict)"
proof -
  have "entry_matches h strict (toLocaleLowerCase h sv) e =
      (case e of (k, v) \<Rightarrow>
         filterObjectViaProperty (h\<lparr>number_toLocaleString := number_String h\<rparr>) [(k, v)] k
           (toLocaleLowerCase h sv) strict)" for e
    using entry_matches_as_property_test [OF assms] by (cases e) simp
  then show ?thesis
    by (simp add: filter_callback_object_undefined)
qed

text \<open>
  C5 at a concrete input: the numeric property matches through \<^verbatim>\<open>String\<close>, where the
  locale-aware stringification would not.
\<close>

theorem C5_full_object_scan_witness:
  "toLocaleLowerCase enUS [] = [] \<and> toLocaleLowerCase enUS ''1234'' \<noteq> []
   \<and> filter_callback enUS ''1234'' (toLocaleLowerCase enUS ''1234'') FbUndefined False
        (JObject [(''a'', JString ''x''), (''n'', JNumber 1234)]) = Inr True"
proof -
  have a: "toLocaleLowerCase enUS [] = []" and b: "toLocaleLowerCase enUS ''1234'' \<noteq> []"
    by (simp_all add: enUS_def)
  have "\<exists>(k, v)\<in>set [(''a'', JString ''x''), (''n'', JNumber 1234)].
     filterObjectViaProperty (enUS\<lparr>number_toLocaleString := number_String enUS\<rparr>) [(k, v)] k
       (toLocaleLowerCase enUS ''1234'') False"
    by code_simp
  with a b C5_full_object_scan [OF a b, of False "[(''a'', JString ''x''), (''n'', JNumber 1234)]"]
  show ?thesis by simp
qed

subsection \<open>The list of property names and named filters\<close>

lemma filter_callback_object_array:
  "filter_callback h sv q (FbArray ks) strict (JObject props) =
     array_some (element_matches h sv q strict (JObject props)) ks"
  by (simp add: filter_callback_def primitive_includes_def isObject_def object_matches_def)

text \<open>
  C6 (MatcherList dispatch): on an object item, when \<^verbatim>\<open>filterBy\<close> is a list, the callback
  returns what the first element whose test does not return \<^verbatim>\<open>false\<close> returns (or
  throws), and \<^verbatim>\<open>false\<close> when there is none: the elements are tried in the order of the
  list and none is tried after the first success. A string element is the property test
  with the lowercase query; a named filter is called on \<^verbatim>\<open>item[name]\<close> (the own or
  inherited property, else \<^verbatim>\<open>undefined\<close>), the raw
  \<^verbatim>\<open>search.value\<close> and the item, and what it returns is taken as it is. When no element
  throws, the item matches iff some element succeeds.
\<close>

theorem C6_matcher_list:
  "filter_callback h sv (toLocaleLowerCase h sv) (FbArray ks) strict (JObject props) =
     (case find (\<lambda>k. element_matches h sv (toLocaleLowerCase h sv) strict (JObject props) k \<noteq> Inr False) ks of
        None \<Rightarrow> Inr False
      | Some k \<Rightarrow> element_matches h sv (toLocaleLowerCase h sv) strict (JObject props) k)
   \<and> (\<forall>p. element_matches h sv (toLocaleLowerCase h sv) strict (JObject props) (PropertyName p) =
          Inr (filterObjectViaProperty h props p (toLocaleLowerCase h sv) strict))
   \<and> (\<forall>name f. element_matches h sv (toLocaleLowerCase h sv) strict (JObject props) (NamedFilter name f) =
          f (get_prop props name) sv (JObject props))
   \<and> ((\<forall>k\<in>set ks. \<exists>b. element_matches h sv (toLocaleLowerCase h sv) strict (JObject props) k = Inr b) \<longrightarrow>
        filter_callback h sv (toLocaleLowerCase h sv) (FbArray ks) strict (JObject props) =
          Inr (\<exists>k\<in>set ks. element_matches h sv (toLocaleLowerCase h sv) strict (JObject props) k = Inr True))
   \<and> (\<forall>pre k post.
         ks = pre @ k # post
         \<and> (\<forall>x\<in>set pre. element_matches h sv (toLocaleLowerCase h sv) strict (JObject props) x = Inr False)
         \<and> element_matches h sv (toLocaleLowerCase h sv) strict (JObject props) k = Inr True \<longrightarrow>
         filter_callback h sv (toLocaleLowerCase h sv) (FbArray ks) strict (JObject props) = Inr True)"
proof -
  let ?t = "element_matches h sv (toLocaleLowerCase h sv) strict (JObject props)"
  let ?r = "filter_callback h sv (toLocaleLowerCase h sv) (FbArray ks) strict (JObject props)"
  have r: "?r = array_some ?t ks"
    by (rule filter_callback_object_array)
  have first: "?r = (case find (\<lambda>k. ?t k \<noteq> Inr False) ks of None \<Rightarrow> Inr False | Some k \<Rightarrow> ?t k)"
    unfolding r by (rule array_some_find)
  have total: "?r = Inr (\<exists>k\<in>set ks. ?t k = Inr True)" if "\<forall>k\<in>set ks. \<exists>b. ?t k = Inr b"
  proof -
    have "?t k = Inr (?t k = Inr True)" if "k \<in> set ks" for k
      using \<open>\<forall>k\<in>set ks. \<exists>b. ?t k = Inr b\<close> that by auto
    then show ?thesis
      unfolding r by (rule array_some_total)
  qed
  have short: "?r = Inr True"
    if "ks = pre @ k # post" "\<forall>x\<in>set pre. ?t x = Inr False" "?t k = Inr True" for pre k post
    unfolding r using that by (simp add: array_some_short_circuit)
  show ?thesis
    using first total short by simp
qed

text \<open>
  C6 at concrete inputs. First list: the property test fails, the named filter succeeds on
  the raw query, and the third element, which would throw, is never called. Second list:
  the item matches through its second string element. Third and fourth list: a named
  filter on \<^verbatim>\<open>toString\<close>, which \<^verbatim>\<open>{a: 'x'}\<close> inherits, is called on that function and
  not on \<^verbatim>\<open>undefined\<close>.
\<close>

theorem C6_matcher_list_witness:
  "filter_callback enUS ''AN'' (toLocaleLowerCase enUS ''AN'')
      (FbArray [PropertyName ''name'',
                NamedFilter ''age'' (\<lambda>v q item. Inr (v = JNumber 30 \<and> q = ''AN'')),
                NamedFilter ''name'' (\<lambda>v q item. Inl (JString ''thrown''))])
      False (JObject [(''name'', JString ''Bob''), (''age'', JNumber 30)]) = Inr True
   \<and> filter_callback enUS ''AN'' (toLocaleLowerCase enUS ''AN'')
      (FbArray [PropertyName ''email'', PropertyName ''name''])
      False (JObject [(''name'', JString ''Ann''), (''age'', JNumber 30)]) = Inr True
   \<and> filter_callback enUS ''x'' (toLocaleLowerCase enUS ''x'')
      (FbArray [NamedFilter ''toString'' (\<lambda>v q item. Inr (v = JUndefined))])
      False (JObject [(''a'', JString ''x'')]) = Inr False
   \<and> filter_callback enUS ''x'' (toLocaleLowerCase enUS ''x'')
      (FbArray [NamedFilter ''toString'' (\<lambda>v q item. Inr (v = JFunction (Intrinsic ''toString'')))])
      False (JObject [(''a'', JString ''x'')]) = Inr True"
proof -
  let ?item = "JObject [(''name'', JString ''Bob''), (''age'', JNumber 30)] :: int jsval"
  let ?k = "NamedFilter ''age'' (\<lambda>v q item. Inr (v = JNumber 30 \<and> q = ''AN'')) :: int filterBy_element"
  let ?post = "[NamedFilter ''name'' (\<lambda>v q item. Inl (JString ''thrown''))] :: int filterBy_element list"
  have pre: "\<forall>x\<in>set [PropertyName ''name''].
      element_matches enUS ''AN'' (toLocaleLowerCase enUS ''AN'') False ?item x = Inr False"
    by code_simp
  have k: "element_matches enUS ''AN'' (toLocaleLowerCase enUS ''AN'') False ?item ?k = Inr True"
    by (simp add: get_prop_def)
  have "[PropertyName ''name'', ?k, NamedFilter ''name'' (\<lambda>v q item. Inl (JString ''thrown''))]
      = [PropertyName ''name''] @ ?k # ?post"
    by simp
  with pre k
    C6_matcher_list [of enUS "''AN''"
      "[PropertyName ''name'', ?k, NamedFilter ''name'' (\<lambda>v q item. Inl (JString ''thrown''))]"
      False "[(''name'', JString ''Bob''), (''age'', JNumber 30)]"]
  have short: "filter_callback enUS ''AN'' (toLocaleLowerCase enUS ''AN'')
      (FbArray [PropertyName ''name'', ?k, NamedFilter ''name'' (\<lambda>v q item. Inl (JString ''thrown''))])
      False ?item = Inr True"
    by blast
  let ?ann = "[(''name'', JString ''Ann''), (''age'', JNumber 30)] :: (string \<times> int jsval) list"
  have e1: "filterObjectViaProperty enUS ?ann ''email'' (toLocaleLowerCase enUS ''AN'') False = False"
    and e2: "filterObjectViaProperty enUS ?ann ''name'' (toLocaleLowerCase enUS ''AN'') False = True"
    by code_simp+
  have names: "filter_callback enUS ''AN'' (toLocaleLowerCase enUS ''AN'')
      (FbArray [PropertyName ''email'', PropertyName ''name'']) False (JObject ?ann) = Inr True"
    using C6_matcher_list [where h = enUS and sv = "''AN''" and strict = False and props = ?ann
        and ks = "[PropertyName ''email'', PropertyName ''name'']"] e1 e2
    by simp
  let ?a = "[(''a'', JString ''x'')] :: (string \<times> int jsval) list"
  have g: "get_prop ?a ''toString'' = JFunction (Intrinsic ''toString'')"
    by (simp add: get_prop_def Object_prototype_def)
  have inh1: "filter_callback enUS ''x'' (toLocaleLowerCase enUS ''x'')
      (FbArray [NamedFilter ''toString'' (\<lambda>v q item. Inr (v = JUndefined))])
      False (JObject ?a) = Inr False"
    using C6_matcher_list [where h = enUS and sv = "''x''" and strict = False and props = ?a
        and ks = "[NamedFilter ''toString'' (\<lambda>v q item. Inr (v = JUndefined))]"] g
    by simp
  have inh2: "filter_callback enUS ''x'' (toLocaleLowerCase enUS ''x'')
      (FbArray [NamedFilter ''toString'' (\<lambda>v q item. Inr (v = JFunction (Intrinsic ''toString'')))])
      False (JObject ?a) = Inr True"
    using C6_matcher_list [where h = enUS and sv = "''x''" and strict = False and props = ?a
        and ks = "[NamedFilter ''toString'' (\<lambda>v q item. Inr (v = JFunction (Intrinsic ''toString'')))]"] g
    by simp
  from short names inh1 inh2 show ?thesis by simp
qed

subsection \<open>Strict against loose\<close>

lemma entry_strict_implies_loose:
  "entry_matches h True q e \<Longrightarrow> entry_matches h False q e"
  by (cases "snd e") (simp_all add: entry_matches_def primitive_includes_def)

lemma property_strict_implies_loose:
  "filterObjectViaProperty h obj p q True \<Longrightarrow> filterObjectViaProperty h obj p q False"
  by (cases "get_prop obj p")
     (simp_all add: filterObjectViaProperty_def extractStringValueFromObj_def)

lemma callback_returns:
  assumes "fb = FbUndefined \<or> (\<exists>p. fb = FbString p)"
  shows "\<exists>b. filter_callback h sv q fb strict item = Inr b"
  using assms
  by (cases item; cases strict)
     (auto simp add: filter_callback_def primitive_includes_def isObject_def object_matches_def)

lemma scan_strict_implies_loose:
  "list_ex (entry_matches h True q) ps \<Longrightarrow> list_ex (entry_matches h False q) ps"
  unfolding list_ex_iff using entry_strict_implies_loose by blast

lemma object_strict_implies_loose:
  assumes "fb = FbUndefined \<or> (\<exists>p. fb = FbString p)"
    and "object_matches h sv q fb True item = Inr True"
  shows "object_matches h sv q fb False item = Inr True"
  using assms scan_strict_implies_loose [of h q "own_entries item"]
    property_strict_implies_loose [of h "own_entries item" _ q]
  by (auto simp add: object_matches_def split: if_splits)

lemma callback_strict_implies_loose:
  assumes "fb = FbUndefined \<or> (\<exists>p. fb = FbString p)"
    and "filter_callback h sv q fb True item = Inr True"
  shows "filter_callback h sv q fb False item = Inr True"
proof (cases item)
  case (JObject ps)
  with assms object_strict_implies_loose [OF assms(1), of h sv q item]
  show ?thesis
    by (auto simp add: filter_callback_def primitive_includes_def isObject_def)
qed (use assms in \<open>auto simp add: filter_callback_def primitive_includes_def isObject_def\<close>)

lemma array_filter_narrowing:
  assumes "\<forall>x\<in>set xs. (\<exists>b. f x = Inr b) \<and> (\<exists>b. g x = Inr b) \<and> (f x = Inr True \<longrightarrow> g x = Inr True)"
  shows "\<exists>rs rl. array_filter f xs = Inr rs \<and> array_filter g xs = Inr rl \<and> subseq rs rl"
  using assms
proof (induction xs)
  case Nil
  then show ?case by simp
next
  case (Cons x xs)
  then obtain rs rl where ih: "array_filter f xs = Inr rs" "array_filter g xs = Inr rl" "subseq rs rl"
    by auto
  from Cons.prems obtain bs bl where b: "f x = Inr bs" "g x = Inr bl" "bs \<longrightarrow> bl"
    by auto
  show ?case
    using ih b by (cases bs; cases bl) (auto intro: list_emb_Cons)
qed

text \<open>
  C7 (strictness narrowing): when \<^verbatim>\<open>filterBy\<close> is absent or a property name, reading the
  value under \<^verbatim>\<open>strict = true\<close> and under \<^verbatim>\<open>strict = false\<close> both return, and the
  strict result is a subsequence of the loose one: every item kept in strict mode is kept in
  loose mode.
\<close>

theorem C7_strictness_narrowing:
  assumes "unref w filterBy = FbUndefined \<or> (\<exists>p. unref w filterBy = FbString p)"
  shows "\<exists>rs rl.
           value_of (useSearch h w0 search dat filterBy (Plain True)) w = Inr rs
         \<and> value_of (useSearch h w0 search dat filterBy (Plain False)) w = Inr rl
         \<and> subseq rs rl \<and> set rs \<subseteq> set rl"
proof (cases "isEmpty h (search w0)")
  case True
  then show ?thesis by (simp add: useSearch_early_return)
next
  case False
  let ?cb = "filter_callback h (search w) (toLocaleLowerCase h (search w)) (unref w filterBy)"
  have "\<forall>x\<in>set dat. (\<exists>b. ?cb True x = Inr b) \<and> (\<exists>b. ?cb False x = Inr b)
      \<and> (?cb True x = Inr True \<longrightarrow> ?cb False x = Inr True)"
    using callback_returns [OF assms] callback_strict_implies_loose [OF assms] by blast
  from array_filter_narrowing [OF this]
  obtain rs rl where
    "results h search dat filterBy (Plain True) w = Inr rs"
    "results h search dat filterBy (Plain False) w = Inr rl" "subseq rs rl"
    by (auto simp add: results_def)
  moreover from \<open>subseq rs rl\<close> have "set rs \<subseteq> set rl"
    by (auto elim: list_emb_set)
  ultimately show ?thesis
    using False by (simp add: useSearch_computed)
qed

text \<open>C7 at a concrete input: the numeric property matches in loose mode only.\<close>

theorem C7_strictness_narrowing_witness:
  "value_of (useSearch enUS ''1'' (\<lambda>w. w)
       [JObject [(''a'', JNumber 1)], JObject [(''a'', JString ''x1'')]]
       (Plain (FbString ''a'')) (Plain True)) ''1''
     = Inr [JObject [(''a'', JString ''x1'')]]
   \<and> value_of (useSearch enUS ''1'' (\<lambda>w. w)
       [JObject [(''a'', JNumber 1)], JObject [(''a'', JString ''x1'')]]
       (Plain (FbString ''a'')) (Plain False)) ''1''
     = Inr [JObject [(''a'', JNumber 1)], JObject [(''a'', JString ''x1'')]]
   \<and> subseq [JObject [(''a'', JString ''x1'')]]
        [JObject [(''a'', JNumber 1)], JObject [(''a'', JString ''x1'') :: (string \<times> int jsval)]]"
proof -
  let ?dat = "[JObject [(''a'', JNumber 1)], JObject [(''a'', JString ''x1'')]] :: int jsval list"
  have s: "value_of (useSearch enUS ''1'' (\<lambda>w. w) ?dat (Plain (FbString ''a'')) (Plain True)) ''1''
     = Inr [JObject [(''a'', JString ''x1'')]]"
    by code_simp
  have l: "value_of (useSearch enUS ''1'' (\<lambda>w. w) ?dat (Plain (FbString ''a'')) (Plain False)) ''1''
     = Inr ?dat"
    by code_simp
  have "unref ''1'' (Plain (FbString ''a'' :: int typeFilterBy)) = FbUndefined
      \<or> (\<exists>p. unref ''1'' (Plain (FbString ''a'' :: int typeFilterBy)) = FbString p)"
    by simp
  from C7_strictness_narrowing [OF this, of enUS "''1''" "\<lambda>w. w" ?dat] s l
  show ?thesis by auto
qed

subsection \<open>Case folding\<close>

lemma filter_callback_string_item:
  "filter_callback h sv q FbUndefined strict (JString s) =
     Inr (str_includes (toLocaleLowerCase h s) q)"
  by (simp add: filter_callback_def primitive_includes_def)

text \<open>
  C8 (case insensitivity): on a host that lowercases \<^verbatim>\<open>'ABC'\<close> and \<^verbatim>\<open>'abc'\<close> to the same
  string, a collection of strings filtered without \<^verbatim>\<open>filterBy\<close> gives the same value for
  the two queries. The computed keeps the strings whose lowercase form contains the
  lowercase query: the query is lowercased once, each candidate when it is compared.
\<close>

theorem C8_case_insensitive:
  assumes "toLocaleLowerCase h ''ABC'' = toLocaleLowerCase h ''abc''"
    and "search w1 = ''ABC''" and "search w2 = ''abc''"
    and "\<forall>x\<in>set dat. \<exists>s. x = JString s"
  shows "value_of (useSearch h w0 search dat (Plain FbUndefined) (Plain strict)) w1
       = value_of (useSearch h w0 search dat (Plain FbUndefined) (Plain strict)) w2
     \<and> results h search dat (Plain FbUndefined) (Plain strict) w1
       = Inr (filter (\<lambda>x. \<exists>s. x = JString s
                \<and> str_includes (toLocaleLowerCase h s) (toLocaleLowerCase h ''ABC'')) dat)
     \<and> results h search dat (Plain FbUndefined) (Plain strict) w2
       = Inr (filter (\<lambda>x. \<exists>s. x = JString s
                \<and> str_includes (toLocaleLowerCase h s) (toLocaleLowerCase h ''abc'')) dat)"
proof -
  have folded: "results h search dat (Plain FbUndefined) (Plain strict) w
      = Inr (filter (\<lambda>x. \<exists>s. x = JString s
                \<and> str_includes (toLocaleLowerCase h s) (toLocaleLowerCase h (search w))) dat)" for w
    unfolding results_def Let_def unref.simps
  proof (rule array_filter_total)
    fix x assume "x \<in> set dat"
    with assms(4) obtain s where "x = JString s" by blast
    then show "filter_callback h (search w) (toLocaleLowerCase h (search w)) FbUndefined strict x
        = Inr (\<exists>s. x = JString s
                \<and> str_includes (toLocaleLowerCase h s) (toLocaleLowerCase h (search w)))"
      by (simp add: filter_callback_string_item)
  qed
  have same: "results h search dat (Plain FbUndefined) (Plain strict) w1
      = results h search dat (Plain FbUndefined) (Plain strict) w2"
    using assms(1-3) by (simp add: folded)
  have "value_of (useSearch h w0 search dat (Plain FbUndefined) (Plain strict)) w1
       = value_of (useSearch h w0 search dat (Plain FbUndefined) (Plain strict)) w2"
    using same by (cases "isEmpty h (search w0)") (simp_all add: useSearch_def)
  then show ?thesis
    using folded [of w1] folded [of w2] assms(2,3) by simp
qed

text \<open>C8 at a concrete input, with candidates in mixed case.\<close>

theorem C8_case_insensitive_witness:
  "toLocaleLowerCase enUS ''ABC'' = toLocaleLowerCase enUS ''abc''
   \<and> value_of (useSearch enUS ''x'' (\<lambda>w. w) [JString ''xABCx'', JString ''abd'', JString ''aBc'']
        (Plain FbUndefined) (Plain False)) ''ABC''
     = Inr [JString ''xABCx'', JString ''aBc'']
   \<and> value_of (useSearch enUS ''x'' (\<lambda>w. w) [JString ''xABCx'', JString ''abd'', JString ''aBc'']
        (Plain FbUndefined) (Plain False)) ''abc''
     = Inr [JString ''xABCx'', JString ''aBc'']"
proof -
  let ?dat = "[JString ''xABCx'', JString ''abd'', JString ''aBc''] :: int jsval list"
  have f: "toLocaleLowerCase enUS ''ABC'' = toLocaleLowerCase enUS ''abc''"
    by code_simp
  have d: "\<forall>x\<in>set ?dat. \<exists>s. x = JString s"
    by simp
  have u: "value_of (useSearch enUS ''x'' (\<lambda>w. w) ?dat (Plain FbUndefined) (Plain False)) ''ABC''
     = Inr [JString ''xABCx'', JString ''aBc'']"
    by code_simp
  have w1: "(\<lambda>w. w) ''ABC'' = ''ABC''" and w2: "(\<lambda>w. w) ''abc'' = ''abc''"
    by simp_all
  from C8_case_insensitive [where h = enUS and search = "\<lambda>w. w" and ?w1.0 = "''ABC''"
      and ?w2.0 = "''abc''" and dat = ?dat and ?w0.0 = "''x''" and strict = False, OF f w1 w2 d] f u
  show ?thesis by simp
qed

end
